theory Spec2Isabelle
  imports Complex_Main "HOL-Library.Word"
begin

section \<open>Smart parking request handler (src/backend/lambda.py)\<close>

text \<open>
  A shallow embedding of the Lambda function of the Smart-Parking-System repository.
  The AWS collaborators are made explicit: the two DynamoDB tables, the S3 bucket and the
  CloudWatch sink are fields of a \<open>world\<close> record that every function takes and returns;
  what the outside decides within one request (the clock, the answer of Rekognition, whether
  a call wrapped in \<open>try\<close> raises) is a field of an \<open>env\<close> record. The tables hold what the
  handlers write and nothing else. A string is a Python \<open>str\<close> of code points below 256.
  An exception that nothing catches is a result \<open>Inl\<close>, returned with the world as the
  calls made before it left it. The event has the shape API Gateway gives it: \<open>headers\<close> is
  a dict of strings or null, \<open>body\<close> is a string or null, and either key may be missing.
\<close>

unbundle bit_operations_syntax

subsection \<open>Configuration\<close>

definition TABLE_NAME :: string where "TABLE_NAME = ''ParkingLot''"
definition LOGS_TABLE_NAME :: string where "LOGS_TABLE_NAME = ''ParkingLogs''"
definition BUCKET_NAME :: string where "BUCKET_NAME = ''parking-lot-images-cpc357''"
definition REGION :: string where "REGION = ''ap-southeast-1''"
definition MAX_SPOTS :: int where "MAX_SPOTS = 30"

subsection \<open>Data\<close>

type_synonym bytes = "8 word list"

datatype error =
    AttributeError        \<comment> \<open>\<open>headers.get\<close> when \<open>headers\<close> is a JSON null\<close>
  | KeyError              \<comment> \<open>\<open>event['body']\<close> on an event without that key\<close>
  | TypeError             \<comment> \<open>\<open>b64decode\<close> of a JSON null\<close>
  | ValueError            \<comment> \<open>\<open>b64decode\<close> of a string with a non-ASCII character\<close>
  | BinasciiError         \<comment> \<open>\<open>b64decode\<close> of a string with incorrect padding\<close>
  | OverflowError         \<comment> \<open>an integer quotient too large for a double\<close>
  | ValidationException   \<comment> \<open>DynamoDB: an update expression reads an attribute the item lacks,
                              or a key is not a valid key\<close>
  | ServiceError          \<comment> \<open>any other failure of a collaborator\<close>




record response =
  statusCode :: int
  body :: string

text \<open>One element of \<open>rek_response['TextDetections']\<close>.\<close>

record detection =
  Type :: string
  Confidence :: real
  DetectedText :: string

text \<open>An item of the table ParkingLogs, as \<open>handle_entry\<close> writes it.\<close>

record log_item =
  log_id :: string
  timestamp :: string
  entry_epoch :: int
  log_action :: string
  image_url :: string

record metric =
  MetricName :: string
  Value :: int
  Unit :: string

record world =
  lot :: "int option"                        \<comment> \<open>\<open>available_slots\<close> of the item \<open>lot1\<close> of ParkingLot\<close>
  logs :: "string \<rightharpoonup> log_item"               \<comment> \<open>ParkingLogs, keyed by \<open>log_id\<close>\<close>
  bucket :: "string \<rightharpoonup> bytes"                \<comment> \<open>the objects of the S3 bucket\<close>
  metrics :: "(string \<times> metric list) list"    \<comment> \<open>the batches pushed to CloudWatch, with their namespace\<close>
  ocr_calls :: "bytes list"                  \<comment> \<open>the images sent to Rekognition\<close>

record env =
  upload_time :: int                         \<comment> \<open>\<open>int(time.time())\<close> when the file name is made\<close>
  s3_put_fails :: bool
  detect_text :: "bytes \<Rightarrow> error + detection list"
  handler_time :: int                        \<comment> \<open>\<open>int(time.time())\<close> inside the entry or exit handler\<close>
  handler_timestamp :: string                \<comment> \<open>\<open>time.strftime(...)\<close> inside the entry handler\<close>
  logs_get_fails :: bool
  cw_put_fails :: bool

subsection \<open>Library functions the handler calls\<close>




text \<open>\<open>str.lower()\<close> on code points below 256: the ASCII and the Latin-1 capitals move by 32.\<close>

definition lower_char :: "char \<Rightarrow> char" where
  "lower_char c =
     (let n = (of_char c :: nat) in
      if (65 \<le> n \<and> n \<le> 90) \<or> (192 \<le> n \<and> n \<le> 222 \<and> n \<noteq> 215) then char_of (n + 32) else c)"

definition lower :: "string \<Rightarrow> string" where
  "lower s = map lower_char s"




text \<open>
  \<open>int(x / 60)\<close> for an integer \<open>x\<close>. Python's \<open>/\<close> on two integers is the double
  nearest to the exact quotient, ties going to the even mantissa, and an OverflowError when
  that double would not be finite; \<open>int\<close> then drops the fraction. With \<open>a = |x|\<close> at least
  60, \<open>binade a\<close> is the exponent \<open>k\<close> of the quotient, \<open>2 ^ k \<le> a / 60 < 2 ^ (k + 1)\<close>, and
  the double is the quotient rounded to a multiple of \<open>2 ^ (k - 52)\<close>. Below 60 the quotient
  is under 1 and so is its double.
\<close>

fun binade :: "nat \<Rightarrow> nat" where
  "binade a = (if a < 120 then 0 else Suc (binade (a div 2)))"

declare binade.simps [simp del]

definition round_half_even :: "nat \<Rightarrow> nat \<Rightarrow> nat" where
  "round_half_even a d =
     (let m = a div d; r = a mod d
      in if 2 * r > d \<or> (2 * r = d \<and> odd m) then m + 1 else m)"

definition int_div60 :: "int \<Rightarrow> error + int" where
  "int_div60 x =
     (let a = nat \<bar>x\<bar> in
      if a < 60 then Inr 0
      else
        (let k = binade a in
         if k \<le> 52 then
           Inr (sgn x * int (round_half_even (a * 2 ^ (52 - k)) 60 div 2 ^ (52 - k)))
         else
           (let v = round_half_even a (60 * 2 ^ (k - 52)) * 2 ^ (k - 52)
            in if v \<ge> 2 ^ 1024 then Inl OverflowError else Inr (sgn x * int v))))"

subsection \<open>Collaborators\<close>

text \<open>
  \<open>logs_table.put_item\<close>: the item replaces whatever the table holds under its \<open>log_id\<close>.
  DynamoDB rejects an item whose key is the empty string or longer than 2048 bytes of UTF-8
  (a character from 128 on takes two bytes); nothing in \<open>handle_entry\<close> catches that. So no
  record is ever stored under such a key, and a \<open>get_item\<close> with one, which DynamoDB
  rejects inside the \<open>try\<close> of \<open>handle_exit\<close>, finds nothing in either reading.
\<close>

definition utf8_length :: "string \<Rightarrow> nat" where
  "utf8_length s = length s + length (filter (\<lambda>c. (of_char c :: nat) \<ge> 128) s)"

definition valid_key :: "string \<Rightarrow> bool" where
  "valid_key k = (k \<noteq> [] \<and> utf8_length k \<le> 2048)"

definition put_item :: "log_item \<Rightarrow> world \<Rightarrow> error + world" where
  "put_item item w =
     (if valid_key (log_id item) then Inr (w\<lparr>logs := (logs w)(log_id item \<mapsto> item)\<rparr>)
      else Inl ValidationException)"

text \<open>
  \<open>table.update_item\<close> with the expression \<open>set available_slots = available_slots + :val\<close>
  and \<open>ReturnValues = UPDATED_NEW\<close>: the stored attribute moves by \<open>val\<close> and its new value
  comes back. DynamoDB rejects the expression when the item has no such attribute; nothing
  in the handlers catches that.
\<close>

definition update_item :: "int \<Rightarrow> world \<Rightarrow> error + (int \<times> world)" where
  "update_item val w =
     (case lot w of
        None \<Rightarrow> Inl ValidationException
      | Some available_slots \<Rightarrow>
          Inr (available_slots + val, w\<lparr>lot := Some (available_slots + val)\<rparr>))"

subsection \<open>Monitoring and utilities\<close>

definition api_response :: "int \<Rightarrow> string \<Rightarrow> response" where
  "api_response code message = \<lparr>statusCode = code, body = message\<rparr>"

definition send_cloudwatch_data :: "env \<Rightarrow> string \<Rightarrow> string \<Rightarrow> int \<Rightarrow> int \<Rightarrow> world \<Rightarrow> world" where
  "send_cloudwatch_data e act plate slots_left duration_mins w =
     (let metric_data =
            [\<lparr>MetricName = ''AvailableSlots_Demo'', Value = slots_left, Unit = ''Count''\<rparr>];
          metric_data =
            (if act = ''ENTRY'' then
               metric_data @ [\<lparr>MetricName = ''DailyCarCount'', Value = 1, Unit = ''Count''\<rparr>]
             else if act = ''EXIT'' \<and> duration_mins > 0 then
               metric_data @ [\<lparr>MetricName = ''ParkingDuration'', Value = duration_mins, Unit = ''Count''\<rparr>]
             else metric_data)
      in if cw_put_fails e then w
         else w\<lparr>metrics := metrics w @ [(''SmartParking'', metric_data)]\<rparr>)"

subsection \<open>Core logic\<close>

definition handle_entry :: "env \<Rightarrow> string \<Rightarrow> string \<Rightarrow> world \<Rightarrow> (error + response) \<times> world" where
  "handle_entry e plate image_key w =
     (let (slots, w1) =
            (case lot w of
               None \<Rightarrow> (MAX_SPOTS, w\<lparr>lot := Some MAX_SPOTS\<rparr>)
             | Some available_slots \<Rightarrow> (available_slots, w))
      in if slots \<le> 0 then (Inr (api_response 200 ''FULL''), w1)
         else if plate \<noteq> ''UNKNOWN'' then
           (let new_slots = slots - 1 in
            case update_item (- 1) w1 of
              Inl err \<Rightarrow> (Inl err, w1)
            | Inr (_, w2) \<Rightarrow>
                (let current_epoch = handler_time e in
                 case put_item
                        \<lparr>log_id = plate,
                         timestamp = handler_timestamp e,
                         entry_epoch = current_epoch,
                         log_action = ''ENTRY'',
                         image_url = ''https://'' @ BUCKET_NAME @ ''.s3.'' @ REGION
                                       @ ''.amazonaws.com/'' @ image_key\<rparr> w2 of
                   Inl err \<Rightarrow> (Inl err, w2)
                 | Inr w3 \<Rightarrow>
                     (let w4 = send_cloudwatch_data e ''ENTRY'' plate new_slots 0 w3
                      in (Inr (api_response 200 ''OPEN_GATE''), w4))))
         else (Inr (api_response 200 ''DENIED_NO_TEXT''), w1))"


text \<open>
  The second step of \<open>handle_exit\<close>, which computes \<open>duration_minutes\<close>; \<open>exit_time\<close> is
  the clock read inside the \<open>try\<close> block. Whatever raises inside that block, the lookup or
  the division, leaves \<open>duration_minutes\<close> at its initial 0.
\<close>

definition exit_duration :: "env \<Rightarrow> string \<Rightarrow> world \<Rightarrow> int" where
  "exit_duration e plate w =
     (if plate \<noteq> ''UNKNOWN'' then
        (if logs_get_fails e then 0
         else
           (case logs w plate of
              None \<Rightarrow> 0
            | Some item \<Rightarrow>
                (let entry_time = entry_epoch item;
                     exit_time = handler_time e;
                     duration_seconds = exit_time - entry_time
                 in case int_div60 duration_seconds of
                      Inl err \<Rightarrow> 0
                    | Inr duration_minutes \<Rightarrow> duration_minutes)))
      else 0)"

definition handle_exit :: "env \<Rightarrow> string \<Rightarrow> world \<Rightarrow> (error + response) \<times> world" where
  "handle_exit e plate w =
     (case update_item 1 w of
        Inl err \<Rightarrow> (Inl err, w)
      | Inr (new_slots, w1) \<Rightarrow>
          (let duration_minutes = exit_duration e plate w1;
               w2 = send_cloudwatch_data e ''EXIT'' plate new_slots duration_minutes w1
           in (Inr (api_response 200 ''EXIT_SUCCESS''), w2)))"

subsection \<open>Main handler\<close>





text \<open>Step D: the loop over the detections keeps the text of every confident line.\<close>

primrec collect_lines :: "detection list \<Rightarrow> string list \<Rightarrow> string list" where
  "collect_lines [] detected_text = detected_text"
| "collect_lines (item # items) detected_text =
     (if Type item = ''LINE'' \<and> Confidence item > 70
      then collect_lines items (detected_text @ [DetectedText item])
      else collect_lines items detected_text)"

definition detected_lines :: "env \<Rightarrow> bytes \<Rightarrow> string list" where
  "detected_lines e image_bytes =
     (if image_bytes \<noteq> [] then
        (case detect_text e image_bytes of
           Inl err \<Rightarrow> []
         | Inr text_detections \<Rightarrow> collect_lines text_detections [])
      else [])"


definition plate_read :: "string list \<Rightarrow> string" where
  "plate_read detected_text = (case detected_text of [] \<Rightarrow> ''UNKNOWN'' | t # _ \<Rightarrow> t)"


subsection \<open>Sequences of operations and the bounds on the counter\<close>

text \<open>One call of a core handler, with what the outside decides during it.\<close>

datatype operation = Entry env string string | Exit env string

fun apply_operation :: "operation \<Rightarrow> world \<Rightarrow> world" where
  "apply_operation (Entry e plate image_key) w = snd (handle_entry e plate image_key w)"
| "apply_operation (Exit e plate) w = snd (handle_exit e plate w)"

primrec run_ops :: "operation list \<Rightarrow> world \<Rightarrow> world" where
  "run_ops [] w = w"
| "run_ops (op # ops) w = run_ops ops (apply_operation op w)"

definition slots_lower_ok :: "world \<Rightarrow> bool" where
  "slots_lower_ok w = (case lot w of None \<Rightarrow> True | Some available_slots \<Rightarrow> 0 \<le> available_slots)"

definition slots_upper_ok :: "world \<Rightarrow> bool" where
  "slots_upper_ok w =
     (case lot w of None \<Rightarrow> True | Some available_slots \<Rightarrow> available_slots \<le> MAX_SPOTS)"

definition occupancy_invariant :: "world \<Rightarrow> bool" where
  "occupancy_invariant w = (slots_lower_ok w \<and> slots_upper_ok w)"

text \<open>The lot as \<open>handle_entry\<close> initialises it, with nothing else stored yet.\<close>

definition initial_world :: world where
  "initial_world =
     \<lparr>lot = Some MAX_SPOTS, logs = Map.empty, bucket = Map.empty, metrics = [], ocr_calls = []\<rparr>"

subsection \<open>Concrete requests\<close>

text \<open>
  An outside in which every collaborator answers, Rekognition reads one confident line
  \<open>ABC123\<close> after a low-confidence one, and the clock shows \<open>t\<close>.
\<close>

definition example_env :: "int \<Rightarrow> env" where
  "example_env t =
     \<lparr>upload_time = t,
      s3_put_fails = False,
      detect_text = (\<lambda>image_bytes. Inr
        [\<lparr>Type = ''WORD'', Confidence = 99, DetectedText = ''ABC123''\<rparr>,
         \<lparr>Type = ''LINE'', Confidence = 70, DetectedText = ''XYZ''\<rparr>,
         \<lparr>Type = ''LINE'', Confidence = 95, DetectedText = ''ABC123''\<rparr>,
         \<lparr>Type = ''LINE'', Confidence = 90, DetectedText = ''MALAYSIA''\<rparr>]),
      handler_time = t,
      handler_timestamp = ''2023-11-14 22:13:20'',
      logs_get_fails = False,
      cw_put_fails = False\<rparr>"




definition example_item :: "int \<Rightarrow> log_item" where
  "example_item t =
     \<lparr>log_id = ''ABC123'',
      timestamp = ''2023-11-14 22:13:20'',
      entry_epoch = t,
      log_action = ''ENTRY'',
      image_url = ''https://parking-lot-images-cpc357.s3.ap-southeast-1.amazonaws.com/entry_100.jpg''\<rparr>"

text \<open>A lot with the given counter and one parked car, \<open>ABC123\<close>, that entered at \<open>t\<close>.\<close>

definition parked_world :: "int option \<Rightarrow> int \<Rightarrow> world" where
  "parked_world l t =
     \<lparr>lot = l, logs = [''ABC123'' \<mapsto> example_item t], bucket = Map.empty, metrics = [],
      ocr_calls = []\<rparr>"

section \<open>Properties\<close>

subsection \<open>The entry and exit handlers\<close>









text \<open>
  C6. An entry when the stored \<open>available_slots\<close> is 0 or less answers 200 \<open>FULL\<close> for
  every plate, \<open>UNKNOWN\<close> included, and leaves the whole world as it was: the counter is
  not changed and no session record is written.
\<close>

theorem handle_entry_full:
  assumes "lot w = Some slots" and "slots \<le> 0"
  shows "handle_entry e plate image_key w = (Inr \<lparr>statusCode = 200, body = ''FULL''\<rparr>, w)"
  using assms by (simp add: handle_entry_def api_response_def)

text \<open>A full lot refuses an unread plate and a read one alike.\<close>

theorem handle_entry_full_witness:
  "handle_entry (example_env 100) ''UNKNOWN'' ''error.jpg'' (parked_world (Some 0) 50)
     = (Inr \<lparr>statusCode = 200, body = ''FULL''\<rparr>, parked_world (Some 0) 50)
   \<and> handle_entry (example_env 100) ''ABC123'' ''entry_100.jpg'' (parked_world (Some 0) 50)
     = (Inr \<lparr>statusCode = 200, body = ''FULL''\<rparr>, parked_world (Some 0) 50)"
  using handle_entry_full [of "parked_world (Some 0) 50" 0 "example_env 100" "''UNKNOWN''" "''error.jpg''"]
    handle_entry_full [of "parked_world (Some 0) 50" 0 "example_env 100" "''ABC123''" "''entry_100.jpg''"]
  by (simp add: parked_world_def)

text \<open>
  C7. An entry with plate \<open>UNKNOWN\<close> when the stored \<open>available_slots\<close> is above 0
  answers 200 \<open>DENIED_NO_TEXT\<close> and leaves the whole world as it was: the counter is
  unchanged, no session record is created and no metrics are pushed.
\<close>

theorem handle_entry_denied:
  assumes "lot w = Some slots" and "0 < slots"
  shows "handle_entry e ''UNKNOWN'' image_key w
           = (Inr \<lparr>statusCode = 200, body = ''DENIED_NO_TEXT''\<rparr>, w)"
  using assms by (simp add: handle_entry_def api_response_def)

text \<open>Five free slots and an image without a readable plate.\<close>

theorem handle_entry_denied_witness:
  "handle_entry (example_env 100) ''UNKNOWN'' ''error.jpg'' (parked_world (Some 5) 50)
     = (Inr \<lparr>statusCode = 200, body = ''DENIED_NO_TEXT''\<rparr>, parked_world (Some 5) 50)"
  using handle_entry_denied [of "parked_world (Some 5) 50" 5 "example_env 100" "''error.jpg''"]
  by (simp add: parked_world_def)

subsection \<open>The recognised plate\<close>

text \<open>The loop of step D is a filter on the detections, in their order.\<close>

lemma collect_lines_filter:
  "collect_lines items acc =
     acc @ map DetectedText (filter (\<lambda>item. Type item = ''LINE'' \<and> Confidence item > 70) items)"
  by (induction items arbitrary: acc) simp_all

text \<open>
  C8. Whatever list of detections Rekognition returns, the plate is the \<open>DetectedText\<close> of
  the first detection whose \<open>Type\<close> is \<open>LINE\<close> and whose \<open>Confidence\<close> is strictly above
  70 (every detection before it fails that filter); it is \<open>UNKNOWN\<close> when no detection
  passes the filter, when the recognition call raises, and when the image bytes are empty.
\<close>

theorem plate_is_first_confident_line:
  "(image_bytes \<noteq> [] \<and> detect_text e image_bytes = Inr (skipped @ d # rest)
      \<and> (\<forall>x \<in> set skipped. \<not> (Type x = ''LINE'' \<and> Confidence x > 70))
      \<and> Type d = ''LINE'' \<and> Confidence d > 70
      \<longrightarrow> plate_read (detected_lines e image_bytes) = DetectedText d)
   \<and> (image_bytes \<noteq> [] \<and> detect_text e image_bytes = Inr items
      \<and> (\<forall>x \<in> set items. \<not> (Type x = ''LINE'' \<and> Confidence x > 70))
      \<longrightarrow> plate_read (detected_lines e image_bytes) = ''UNKNOWN'')
   \<and> (image_bytes \<noteq> [] \<and> detect_text e image_bytes = Inl err
      \<longrightarrow> plate_read (detected_lines e image_bytes) = ''UNKNOWN'')
   \<and> (image_bytes = [] \<longrightarrow> plate_read (detected_lines e image_bytes) = ''UNKNOWN'')"
proof -
  let ?P = "\<lambda>item. Type item = ''LINE'' \<and> Confidence item > 70"
  have none: "filter ?P xs = []" if "\<forall>x \<in> set xs. \<not> ?P x" for xs :: "detection list"
    using that by (induction xs) simp_all
  show ?thesis
    by (auto simp: plate_read_def detected_lines_def collect_lines_filter none)
qed

text \<open>
  A confident line after a word and after a line at exactly 70; a lone line at exactly 70;
  a failing call; an empty image.
\<close>

theorem plate_is_first_confident_line_witness:
  "plate_read (detected_lines (example_env 100) [65, 66, 67]) = ''ABC123''
   \<and> plate_read (detected_lines
        ((example_env 100)\<lparr>detect_text := (\<lambda>b. Inr
           [\<lparr>Type = ''LINE'', Confidence = 70, DetectedText = ''XYZ''\<rparr>])\<rparr>) [65, 66, 67]) = ''UNKNOWN''
   \<and> plate_read (detected_lines
        ((example_env 100)\<lparr>detect_text := (\<lambda>b. Inl ServiceError)\<rparr>) [65, 66, 67]) = ''UNKNOWN''
   \<and> plate_read (detected_lines (example_env 100) []) = ''UNKNOWN''"
  using plate_is_first_confident_line
    [of "[65, 66, 67]" "example_env 100"
        "[\<lparr>Type = ''WORD'', Confidence = 99, DetectedText = ''ABC123''\<rparr>,
          \<lparr>Type = ''LINE'', Confidence = 70, DetectedText = ''XYZ''\<rparr>]"
        "\<lparr>Type = ''LINE'', Confidence = 95, DetectedText = ''ABC123''\<rparr>"
        "[\<lparr>Type = ''LINE'', Confidence = 90, DetectedText = ''MALAYSIA''\<rparr>]"]
    plate_is_first_confident_line
    [of "[65, 66, 67]"
        "(example_env 100)\<lparr>detect_text := (\<lambda>b. Inr
           [\<lparr>Type = ''LINE'', Confidence = 70, DetectedText = ''XYZ''\<rparr>])\<rparr>"
        _ _ _ "[\<lparr>Type = ''LINE'', Confidence = 70, DetectedText = ''XYZ''\<rparr>]"]
    plate_is_first_confident_line
    [of "[65, 66, 67]" "(example_env 100)\<lparr>detect_text := (\<lambda>b. Inl ServiceError)\<rparr>"
        _ _ _ _ ServiceError]
    plate_is_first_confident_line [of "[]" "example_env 100"]
  by (simp add: example_env_def)


subsection \<open>The parking duration\<close>

text \<open>
  The exponent of a quotient below \<open>2 ^ (c + 1)\<close> is at most \<open>c\<close>. When the doubles of
  that binade are less than \<open>1 / 60\<close> apart, rounding the quotient to one of them and
  dropping the fraction gives the integer quotient.
\<close>

lemma binade_le: "a < 120 * 2 ^ c \<Longrightarrow> binade a \<le> c"
proof (induction c arbitrary: a)
  case 0
  then show ?case by (simp add: binade.simps [of a])
next
  case (Suc c)
  show ?case
  proof (cases "a < 120")
    case True
    then show ?thesis by (simp add: binade.simps [of a])
  next
    case False
    from Suc.prems have "a div 2 < 120 * 2 ^ c" by simp
    then have "binade (a div 2) \<le> c" by (rule Suc.IH)
    with False show ?thesis by (simp add: binade.simps [of a])
  qed
qed

lemma round_half_even_trunc:
  fixes a P :: nat
  assumes "60 < P"
  shows "round_half_even (a * P) 60 div P = a div 60"
proof -
  define n s where "n = a div 60" and "s = a mod 60"
  have a: "a = n * 60 + s" and s: "s < 60" by (simp_all add: n_def s_def)
  define t where "t = (s * P) div 60"
  have "a * P = s * P + (n * P) * 60" by (simp add: a algebra_simps)
  then have m: "(a * P) div 60 = n * P + t" by (simp add: t_def)
  have "s * P \<le> 59 * P" using s by simp
  then have "t \<le> (59 * P) div 60" unfolding t_def by (rule div_le_mono)
  moreover have "(59 * P) div 60 + 1 < P" using assms by simp
  ultimately have t: "t + 1 < P" by simp
  have P: "P \<noteq> 0" using assms by simp
  have d: "(d + n * P) div P = n" if "d < P" for d
    using that P by simp
  have "round_half_even (a * P) 60 = t + n * P \<or> round_half_even (a * P) 60 = (t + 1) + n * P"
    by (auto simp: round_half_even_def Let_def m)
  then show ?thesis
  proof
    assume "round_half_even (a * P) 60 = t + n * P"
    with d [of t] t show ?thesis by (simp add: n_def)
  next
    assume "round_half_even (a * P) 60 = (t + 1) + n * P"
    with d [of "t + 1"] t show ?thesis by (simp only: n_def)
  qed
qed

text \<open>
  So below \<open>2 ^ 50\<close> in magnitude \<open>int(x / 60)\<close> is the quotient rounded toward zero, and
  the floor of the quotient when \<open>x\<close> is not negative. Further out it is not: the double
  nearest to \<open>16888498602639419 / 60\<close> is \<open>2 ^ 48 + 1\<close>, one above the integer quotient.
\<close>

lemma int_div60_exact:
  assumes "\<bar>x\<bar> < 2 ^ 50"
  shows "int_div60 x = Inr (sgn x * (\<bar>x\<bar> div 60))"
proof (cases "nat \<bar>x\<bar> < 60")
  case True
  then have "\<bar>x\<bar> div 60 = 0" by simp
  with True show ?thesis by (simp add: int_div60_def)
next
  case False
  define a where "a = nat \<bar>x\<bar>"
  from assms have "a < 2 ^ 50" by (simp add: a_def nat_less_iff)
  then have "a < 120 * 2 ^ 46" by simp
  then have k: "binade a \<le> 46" by (rule binade_le)
  then have "(2::nat) ^ 6 \<le> 2 ^ (52 - binade a)"
    by (intro power_increasing) simp_all
  then have P: "60 < (2::nat) ^ (52 - binade a)" by simp
  have "int (round_half_even (a * 2 ^ (52 - binade a)) 60 div 2 ^ (52 - binade a)) = int (a div 60)"
    using round_half_even_trunc [OF P, of a] by simp
  also have "\<dots> = \<bar>x\<bar> div 60" by (simp add: a_def zdiv_int)
  finally show ?thesis using False k by (simp add: int_div60_def Let_def a_def)
qed

lemma int_div60_rounds_up: "int_div60 16888498602639419 = Inr 281474976710657"
  by (simp add: int_div60_def binade.simps round_half_even_def)

lemma int_div60_floor:
  assumes "0 \<le> x" and "x < 2 ^ 50"
  shows "int_div60 x = Inr \<lfloor>real_of_int x / 60\<rfloor>"
proof -
  have "\<lfloor>real_of_int x / real_of_int 60\<rfloor> = x div 60"
    by (rule floor_divide_of_int_eq)
  moreover from assms have "int_div60 x = Inr (sgn x * (\<bar>x\<bar> div 60))"
    by (intro int_div60_exact) simp
  ultimately show ?thesis using assms by (simp add: sgn_if)
qed

text \<open>
  C5, as stated, fails in two ways. When the clock at the exit is behind the stored
  \<open>entry_epoch\<close>: a car recorded at 100 leaves at 70, the difference is \<open>-30\<close> seconds,
  \<open>int(-30 / 60)\<close> is 0 and the floor of \<open>-30 / 60\<close> is \<open>-1\<close>. And when the difference is
  so large that the double quotient rounds up to the next integer: a car recorded at 0
  leaves at 16888498602639419, and \<open>duration_minutes\<close> is one above the floor.
\<close>

theorem exit_duration_floor_counterexample:
  "logs (parked_world (Some 29) 100) ''ABC123'' = Some (example_item 100)
   \<and> ''ABC123'' \<noteq> ''UNKNOWN''
   \<and> \<not> logs_get_fails (example_env 70)
   \<and> exit_duration (example_env 70) ''ABC123'' (parked_world (Some 29) 100) = 0
   \<and> \<lfloor>real_of_int (handler_time (example_env 70) - entry_epoch (example_item 100)) / 60\<rfloor> = - 1
   \<and> logs (parked_world (Some 29) 0) ''ABC123'' = Some (example_item 0)
   \<and> \<not> logs_get_fails (example_env 16888498602639419)
   \<and> exit_duration (example_env 16888498602639419) ''ABC123'' (parked_world (Some 29) 0)
       = 281474976710657
   \<and> \<lfloor>real_of_int (handler_time (example_env 16888498602639419) - entry_epoch (example_item 0)) / 60\<rfloor>
       = 281474976710656"
proof -
  have "\<lfloor>real_of_int (70 - 100) / real_of_int 60\<rfloor> = (70 - 100) div 60"
    by (rule floor_divide_of_int_eq)
  then have a: "\<lfloor>real_of_int (70 - 100) / 60\<rfloor> = - 1" by simp
  have "\<lfloor>real_of_int 16888498602639419 / real_of_int 60\<rfloor> = 16888498602639419 div 60"
    by (rule floor_divide_of_int_eq)
  then have b: "\<lfloor>real_of_int 16888498602639419 / 60\<rfloor> = 281474976710656" by simp
  have c: "int_div60 (- 30) = Inr 0" by (simp add: int_div60_def)
  from a b c int_div60_rounds_up show ?thesis
    by (simp add: exit_duration_def parked_world_def example_item_def example_env_def)
qed

text \<open>The two outcomes of the lookup in \<open>handle_exit\<close>.\<close>

lemma exit_duration_found:
  assumes "plate \<noteq> ''UNKNOWN''" and "\<not> logs_get_fails e" and "logs w plate = Some item"
  shows "exit_duration e plate w =
     (case int_div60 (handler_time e - entry_epoch item) of Inl err \<Rightarrow> 0 | Inr m \<Rightarrow> m)"
  using assms by (simp add: exit_duration_def Let_def)

lemma exit_duration_zero:
  "logs w plate = None \<or> plate = ''UNKNOWN'' \<or> logs_get_fails e \<Longrightarrow> exit_duration e plate w = 0"
  by (auto simp: exit_duration_def)

text \<open>
  C5, amended. For an exit with a plate other than \<open>UNKNOWN\<close> that matches a stored session
  record, and \<open>exit_epoch - entry_epoch\<close> below \<open>2 ^ 50\<close> in magnitude, \<open>duration_minutes\<close>
  is \<open>(exit_epoch - entry_epoch) / 60\<close> rounded toward zero, which is
  \<open>floor((exit_epoch - entry_epoch) / 60)\<close> whenever the exit is not before the entry; with
  no matching record, with plate \<open>UNKNOWN\<close>, or when the lookup fails, it is 0.
\<close>

theorem exit_duration_truncates:
  "(plate \<noteq> ''UNKNOWN'' \<and> \<not> logs_get_fails e \<and> logs w plate = Some item
      \<and> \<bar>handler_time e - entry_epoch item\<bar> < 2 ^ 50
      \<longrightarrow> exit_duration e plate w
            = sgn (handler_time e - entry_epoch item) * (\<bar>handler_time e - entry_epoch item\<bar> div 60)
          \<and> (entry_epoch item \<le> handler_time e
               \<longrightarrow> exit_duration e plate w = \<lfloor>real_of_int (handler_time e - entry_epoch item) / 60\<rfloor>))
   \<and> (logs w plate = None \<longrightarrow> exit_duration e plate w = 0)
   \<and> (plate = ''UNKNOWN'' \<longrightarrow> exit_duration e plate w = 0)
   \<and> (logs_get_fails e \<longrightarrow> exit_duration e plate w = 0)"
proof -
  have found: "exit_duration e plate w
            = sgn (handler_time e - entry_epoch item) * (\<bar>handler_time e - entry_epoch item\<bar> div 60)
          \<and> (entry_epoch item \<le> handler_time e
               \<longrightarrow> exit_duration e plate w = \<lfloor>real_of_int (handler_time e - entry_epoch item) / 60\<rfloor>)"
    if h: "plate \<noteq> ''UNKNOWN''" "\<not> logs_get_fails e" "logs w plate = Some item"
      and b: "\<bar>handler_time e - entry_epoch item\<bar> < 2 ^ 50"
  proof -
    have eq: "exit_duration e plate w =
        (case int_div60 (handler_time e - entry_epoch item) of Inl err \<Rightarrow> 0 | Inr m \<Rightarrow> m)"
      using h by (rule exit_duration_found)
    have t: "exit_duration e plate w
        = sgn (handler_time e - entry_epoch item) * (\<bar>handler_time e - entry_epoch item\<bar> div 60)"
      unfolding eq by (simp add: int_div60_exact [OF b])
    have f: "exit_duration e plate w = \<lfloor>real_of_int (handler_time e - entry_epoch item) / 60\<rfloor>"
      if le: "entry_epoch item \<le> handler_time e"
    proof -
      from le b have "0 \<le> handler_time e - entry_epoch item"
        and "handler_time e - entry_epoch item < 2 ^ 50" by simp_all
      then have "int_div60 (handler_time e - entry_epoch item)
          = Inr \<lfloor>real_of_int (handler_time e - entry_epoch item) / 60\<rfloor>"
        by (rule int_div60_floor)
      then show ?thesis unfolding eq by simp
    qed
    from t f show ?thesis by blast
  qed
  from found exit_duration_zero [of w plate e] show ?thesis by blast
qed

text \<open>
  The scenario of the specification (entry at 100, exit 125 seconds later: 2 minutes), an
  exit before the entry, an unknown car, an unread plate and a failing lookup.
\<close>

theorem exit_duration_truncates_witness:
  "exit_duration (example_env 225) ''ABC123'' (parked_world (Some 29) 100) = 2
   \<and> exit_duration (example_env 70) ''ABC123'' (parked_world (Some 29) 100) = 0
   \<and> exit_duration (example_env 225) ''NOSUCH'' (parked_world (Some 29) 100) = 0
   \<and> exit_duration (example_env 225) ''UNKNOWN'' (parked_world (Some 29) 100) = 0
   \<and> exit_duration ((example_env 225)\<lparr>logs_get_fails := True\<rparr>) ''ABC123'' (parked_world (Some 29) 100) = 0"
  using exit_duration_truncates
      [of "''ABC123''" "example_env 225" "parked_world (Some 29) 100" "example_item 100"]
    exit_duration_truncates
      [of "''ABC123''" "example_env 70" "parked_world (Some 29) 100" "example_item 100"]
    exit_duration_truncates
      [of "''NOSUCH''" "example_env 225" "parked_world (Some 29) 100"]
    exit_duration_truncates
      [of "''UNKNOWN''" "example_env 225" "parked_world (Some 29) 100"]
    exit_duration_truncates
      [of "''ABC123''" "(example_env 225)\<lparr>logs_get_fails := True\<rparr>" "parked_world (Some 29) 100"]
  by (simp add: example_env_def parked_world_def example_item_def)

text \<open>
  The duration is what \<open>handle_exit\<close> hands to the metrics: the batch it pushes carries the
  new counter and, when the duration is positive, the duration.
\<close>

lemma handle_exit_metrics:
  assumes "lot w = Some slots" and "\<not> cw_put_fails e"
  shows "metrics (snd (handle_exit e plate w)) =
     metrics w @ [(''SmartParking'',
       \<lparr>MetricName = ''AvailableSlots_Demo'', Value = slots + 1, Unit = ''Count''\<rparr> #
       (if exit_duration e plate w > 0
        then [\<lparr>MetricName = ''ParkingDuration'', Value = exit_duration e plate w, Unit = ''Count''\<rparr>]
        else []))]"
  using assms
  by (simp add: handle_exit_def update_item_def send_cloudwatch_data_def exit_duration_def Let_def)

subsection \<open>Bounds on the counter\<close>

text \<open>What each handler does to the stored counter.\<close>

lemma send_cloudwatch_data_lot:
  "lot (send_cloudwatch_data e act plate slots_left duration_mins w) = lot w"
  by (simp add: send_cloudwatch_data_def Let_def)

lemma handle_entry_lot:
  "lot (snd (handle_entry e plate image_key w)) =
     (case lot w of
        None \<Rightarrow> Some (if plate \<noteq> ''UNKNOWN'' then MAX_SPOTS - 1 else MAX_SPOTS)
      | Some slots \<Rightarrow> Some (if 0 < slots \<and> plate \<noteq> ''UNKNOWN'' then slots - 1 else slots))"
  by (auto simp: handle_entry_def update_item_def put_item_def send_cloudwatch_data_lot
      MAX_SPOTS_def Let_def split: option.splits)

lemma handle_exit_lot:
  "lot (snd (handle_exit e plate w)) = map_option (\<lambda>slots. slots + 1) (lot w)"
  by (auto simp: handle_exit_def update_item_def send_cloudwatch_data_lot Let_def
      split: option.splits)

text \<open>Neither handler takes the counter below 0, so no sequence of calls does.\<close>

lemma apply_operation_lower: "slots_lower_ok w \<Longrightarrow> slots_lower_ok (apply_operation op w)"
  by (cases op)
    (auto simp: slots_lower_ok_def handle_entry_lot handle_exit_lot MAX_SPOTS_def
      split: option.splits)

lemma run_ops_lower: "slots_lower_ok w \<Longrightarrow> slots_lower_ok (run_ops ops w)"
  by (induction ops arbitrary: w) (simp_all add: apply_operation_lower)

text \<open>An entry keeps the counter inside both bounds.\<close>

lemma handle_entry_invariant:
  "occupancy_invariant w \<Longrightarrow> occupancy_invariant (snd (handle_entry e plate image_key w))"
  by (auto simp: occupancy_invariant_def slots_lower_ok_def slots_upper_ok_def handle_entry_lot
      MAX_SPOTS_def split: option.splits)

text \<open>
  C3, as stated, fails at the initial record: with all 30 slots free, one exit stores 31,
  above \<open>MAX_SPOTS\<close>. \<open>handle_exit\<close> increments without a clamp.
\<close>

theorem occupancy_upper_bound_counterexample:
  "occupancy_invariant initial_world
   \<and> lot initial_world = Some 30
   \<and> lot (snd (handle_exit (example_env 100) ''ABC123'' initial_world)) = Some 31
   \<and> \<not> occupancy_invariant (snd (handle_exit (example_env 100) ''ABC123'' initial_world))"
  by (simp add: occupancy_invariant_def slots_lower_ok_def slots_upper_ok_def handle_exit_lot
      initial_world_def MAX_SPOTS_def)

text \<open>
  C3, amended. The initial record (initialised to \<open>MAX_SPOTS\<close>) satisfies
  \<open>0 \<le> available_slots \<le> MAX_SPOTS\<close>. The lower bound \<open>0 \<le> available_slots\<close> is an
  invariant: every \<open>handle_entry\<close> and every \<open>handle_exit\<close> preserves it, and so does every
  sequence of them. \<open>handle_entry\<close> preserves the upper bound as well; \<open>handle_exit\<close> is
  not claimed to.
\<close>

theorem occupancy_lower_bound_invariant:
  "occupancy_invariant initial_world
   \<and> (slots_lower_ok w \<longrightarrow>
        slots_lower_ok (snd (handle_entry e plate image_key w))
        \<and> slots_lower_ok (snd (handle_exit e plate w))
        \<and> slots_lower_ok (run_ops ops w))
   \<and> (occupancy_invariant w \<longrightarrow> occupancy_invariant (snd (handle_entry e plate image_key w)))"
proof -
  have init: "occupancy_invariant initial_world"
    by (simp add: occupancy_invariant_def slots_lower_ok_def slots_upper_ok_def initial_world_def
        MAX_SPOTS_def)
  have step: "slots_lower_ok (snd (handle_entry e plate image_key w))
      \<and> slots_lower_ok (snd (handle_exit e plate w))" if "slots_lower_ok w"
    using apply_operation_lower [OF that, of "Entry e plate image_key"]
      apply_operation_lower [OF that, of "Exit e plate"] by simp
  from init step run_ops_lower handle_entry_invariant show ?thesis by blast
qed

text \<open>A full lot: an entry refused, an exit, an entry admitted, an entry refused.\<close>

theorem occupancy_lower_bound_invariant_witness:
  "slots_lower_ok (parked_world (Some 0) 50)
   \<and> lot (snd (handle_entry (example_env 100) ''XYZ789'' ''entry_100.jpg'' (parked_world (Some 0) 50)))
       = Some 0
   \<and> lot (snd (handle_exit (example_env 225) ''ABC123'' (parked_world (Some 0) 50))) = Some 1
   \<and> slots_lower_ok (run_ops
        [Entry (example_env 100) ''XYZ789'' ''entry_100.jpg'', Exit (example_env 225) ''ABC123'',
         Entry (example_env 300) ''XYZ789'' ''entry_300.jpg'', Entry (example_env 310) ''DEF456'' ''entry_310.jpg'']
        (parked_world (Some 0) 50))
   \<and> occupancy_invariant (snd (handle_entry (example_env 100) ''XYZ789'' ''entry_100.jpg'' initial_world))"
proof -
  have lower: "slots_lower_ok (parked_world (Some 0) 50)"
    by (simp add: slots_lower_ok_def parked_world_def)
  have inv: "occupancy_invariant initial_world"
    by (simp add: occupancy_invariant_def slots_lower_ok_def slots_upper_ok_def initial_world_def
        MAX_SPOTS_def)
  have l1: "lot (snd (handle_entry (example_env 100) ''XYZ789'' ''entry_100.jpg'' (parked_world (Some 0) 50)))
       = Some 0"
    by (simp add: handle_entry_lot parked_world_def)
  have l2: "lot (snd (handle_exit (example_env 225) ''ABC123'' (parked_world (Some 0) 50))) = Some 1"
    by (simp add: handle_exit_lot parked_world_def)
  from lower inv l1 l2
    occupancy_lower_bound_invariant
      [of "parked_world (Some 0) 50" "example_env 100" "''XYZ789''" "''entry_100.jpg''"
        "[Entry (example_env 100) ''XYZ789'' ''entry_100.jpg'', Exit (example_env 225) ''ABC123'',
         Entry (example_env 300) ''XYZ789'' ''entry_300.jpg'', Entry (example_env 310) ''DEF456'' ''entry_310.jpg'']"]
    occupancy_lower_bound_invariant
      [of initial_world "example_env 100" "''XYZ789''" "''entry_100.jpg''"]
  show ?thesis by blast
qed

subsection \<open>The main handler\<close>



























end
